theory Spec2Isabelle
  imports Complex_Main
begin

section \<open>Cigale modules (misc/cigaleModules.py)\<close>

text \<open>
  Python floats are idealised as exact rationals (\<open>rat\<close>): a decimal literal of the
  source denotes the rational it spells, and \<open>i/10\<close> is the exact quotient. Python
  integers are \<open>int\<close>, strings are \<open>string\<close>. Arguments are taken at their annotated
  types (\<open>List[float]\<close> as \<open>rat list\<close>, \<open>List[int]\<close> as \<open>int list\<close>, \<open>str\<close> as
  \<open>string\<close>, \<open>bool\<close> as \<open>bool\<close>).
\<close>

subsection \<open>Errors, attribute values and objects\<close>

text \<open>
  A raised exception is a value of type \<open>error\<close>. \<open>AttributeError n\<close> is Python's own
  exception for reading an attribute \<open>n\<close> that the instance does not have.
  \<open>PropertyError msg\<close> stands for whatever exception a property class raises when it
  refuses a value.
\<close>

datatype error = PropertyError string | AttributeError string

datatype attr =
    BoolP bool
  | StrP string
  | ListIntP "int list"
  | ListFloatP "rat list"

text \<open>An instance is its attribute dictionary; \<open>self.n = v\<close> is \<open>setattr\<close>.\<close>

type_synonym obj = "string \<rightharpoonup> attr"

definition setattr :: "obj \<Rightarrow> string \<Rightarrow> attr \<Rightarrow> obj" where
  "setattr self n v = self(n \<mapsto> v)"

definition getattr :: "obj \<Rightarrow> string \<Rightarrow> error + attr" where
  "getattr self n = (case self n of None \<Rightarrow> Inl (AttributeError n) | Some v \<Rightarrow> Inr v)"

text \<open>Sequencing of statements that may raise: the first exception ends the run.\<close>

definition andThen :: "error + 'a \<Rightarrow> ('a \<Rightarrow> error + 'b) \<Rightarrow> error + 'b" where
  "andThen m f = (case m of Inl e \<Rightarrow> Inl e | Inr x \<Rightarrow> f x)"

text \<open>
  The statement \<open>self.n = P(...)\<close>: the property is built first, and the attribute
  is set only if building it did not raise.
\<close>

definition assign :: "obj \<Rightarrow> string \<Rightarrow> error + attr \<Rightarrow> error + obj" where
  "assign self n m = andThen m (\<lambda>v. Inr (setattr self n v))"

subsection \<open>The property classes\<close>

text \<open>
  The classes \<open>BoolProperty\<close>, \<open>StrProperty\<close>, \<open>ListIntProperty\<close> and
  \<open>ListFloatProperty\<close> come from misc/properties.py, which cigaleModules.py imports
  and which is not among the sources. The spec describes them as bound-checked
  scalar/list fields: validated value types built through a fallible factory that
  enforces min/max/enumerated constraints at construction time.
\<close>

text \<open>
  Modelled from the spec: the validation shared by the list property classes of
  misc/properties.py. A list property refuses a list with an element below
  \<open>minBound\<close> or above \<open>maxBound\<close> (a bound that is not passed is \<open>None\<close> and checks
  nothing), and refuses a value on which the caller's \<open>testFunc\<close> returns \<open>True\<close>,
  with \<open>testMsg\<close>; otherwise it holds the value.
\<close>

definition ListProperty ::
  "('a::linorder) list \<Rightarrow> 'a option \<Rightarrow> 'a option \<Rightarrow> ('a list \<Rightarrow> bool) \<Rightarrow> string
     \<Rightarrow> error + 'a list" where
  "ListProperty val minBound maxBound testFunc testMsg =
     (if (case minBound of None \<Rightarrow> False | Some lo \<Rightarrow> \<exists>i \<in> set val. i < lo)
        then Inl (PropertyError ''minBound'')
      else if (case maxBound of None \<Rightarrow> False | Some hi \<Rightarrow> \<exists>i \<in> set val. hi < i)
        then Inl (PropertyError ''maxBound'')
      else if testFunc val then Inl (PropertyError testMsg)
      else Inr val)"

text \<open>
  Modelled from the spec: the class \<open>ListFloatProperty\<close> of misc/properties.py, the
  list property of floats.
\<close>

definition ListFloatProperty ::
  "rat list \<Rightarrow> rat option \<Rightarrow> rat option \<Rightarrow> (rat list \<Rightarrow> bool) \<Rightarrow> string \<Rightarrow> error + attr" where
  "ListFloatProperty val minBound maxBound testFunc testMsg =
     andThen (ListProperty val minBound maxBound testFunc testMsg) (\<lambda>v. Inr (ListFloatP v))"

text \<open>
  Modelled from the spec: the class \<open>ListIntProperty\<close> of misc/properties.py, the
  list property of integers.
\<close>

definition ListIntProperty ::
  "int list \<Rightarrow> int option \<Rightarrow> int option \<Rightarrow> (int list \<Rightarrow> bool) \<Rightarrow> string \<Rightarrow> error + attr" where
  "ListIntProperty val minBound maxBound testFunc testMsg =
     andThen (ListProperty val minBound maxBound testFunc testMsg) (\<lambda>v. Inr (ListIntP v))"

text \<open>
  Modelled from the spec: the class \<open>StrProperty\<close> of misc/properties.py;
  cigaleModules.py passes it and \<open>BoolProperty\<close> no constraint, so they hold the
  value they are given.
\<close>

definition StrProperty :: "string \<Rightarrow> error + attr" where
  "StrProperty val = Inr (StrP val)"

text \<open>Modelled from the spec: the class \<open>BoolProperty\<close> of misc/properties.py.\<close>

definition BoolProperty :: "bool \<Rightarrow> error + attr" where
  "BoolProperty val = Inr (BoolP val)"

text \<open>The default \<open>testFunc\<close> of a property (no test) and its default \<open>testMsg\<close>.\<close>

definition noTest :: "'a list \<Rightarrow> bool" where
  "noTest val = False"

definition noMsg :: string where
  "noMsg = []"

definition nl :: string where
  "nl = [CHR 0x0A]"

subsection \<open>NEBULARmodule\<close>

text \<open>\<open>range(start, stop, 1)\<close>: the integers from \<open>start\<close> up to \<open>stop - 1\<close>.\<close>

definition py_range :: "int \<Rightarrow> int \<Rightarrow> int list" where
  "py_range start stop = [start..stop - 1]"

text \<open>\<open>logURange = [i/10 for i in range(-40, -9, 1)]\<close>\<close>

definition logURange :: "rat list" where
  "logURange = map (\<lambda>i. rat_of_int i / 10) (py_range (-40) (-9))"

text \<open>\<open>lambda value: any((i not in logURange for i in value))\<close>\<close>

definition logU_testFunc :: "rat list \<Rightarrow> bool" where
  "logU_testFunc val = (\<exists>i \<in> set val. i \<notin> set logURange)"

definition logU_testMsg :: string where
  "logU_testMsg =
     ''One on the logU values is not accepted. Accepted values are between -4.0 and -1.0 by steps of 0.1.''"

text \<open>The property built for \<open>self.logU\<close>.\<close>

definition NEBULAR_logU :: "rat list \<Rightarrow> error + attr" where
  "NEBULAR_logU logU =
     ListFloatProperty logU (Some (-4.0)) (Some (-1.0)) logU_testFunc logU_testMsg"

text \<open>
  \<open>NEBULARmodule.__init__(logU, f_esc, f_dust, lines_width, include_emission)\<close>: the
  five assignments in the source's order, starting from an instance with no attribute.
\<close>

definition NEBULARmodule_init ::
  "rat list \<Rightarrow> rat list \<Rightarrow> rat list \<Rightarrow> rat list \<Rightarrow> bool \<Rightarrow> error + obj" where
  "NEBULARmodule_init logU f_esc f_dust lines_width include_emission =
     andThen (assign Map.empty ''logU'' (NEBULAR_logU logU)) (\<lambda>s1.
     andThen (assign s1 ''f_esc'' (ListFloatProperty f_esc (Some 0) (Some 1) noTest noMsg)) (\<lambda>s2.
     andThen (assign s2 ''f_dust'' (ListFloatProperty f_dust (Some 0) (Some 1) noTest noMsg)) (\<lambda>s3.
     andThen (assign s3 ''lines_width''
                (ListFloatProperty lines_width (Some 0) None noTest noMsg)) (\<lambda>s4.
     assign s4 ''emission'' (BoolProperty include_emission)))))"

text \<open>
  \<open>NEBULARmodule.__str__\<close>: the f-string reads the attributes from left to right;
  \<open>fmt\<close> is the string conversion of a property (of the absent property classes).
\<close>

definition NEBULARmodule_str :: "(attr \<Rightarrow> string) \<Rightarrow> obj \<Rightarrow> error + string" where
  "NEBULARmodule_str fmt self =
     andThen (getattr self ''logU'') (\<lambda>a1.
     andThen (getattr self ''f_esc'') (\<lambda>a2.
     andThen (getattr self ''f_dust'') (\<lambda>a3.
     andThen (getattr self ''lines_width'') (\<lambda>a4.
     andThen (getattr self ''emission'') (\<lambda>a5.
       Inr (concat
         [nl, ''        [[nebular]]'', nl,
          ''          # Ionisation parameter'', nl,
          ''          logU = '', fmt a1, nl,
          ''          # Fraction of Lyman continuum photons escaping the galaxy'', nl,
          ''          f_esc = '', fmt a2, nl,
          ''          # Fraction of Lyman continuum photons absorbed by dust'', nl,
          ''          f_dust = '', fmt a3, nl,
          ''          # Line width in km/s'', nl,
          ''          lines_width = '', fmt a4, nl,
          ''          # Include nebular emission.'', nl,
          ''          emission = '', fmt a5, nl,
          ''        '']))))))"

subsection \<open>Dust attenuation modules\<close>

text \<open>\<open>ATTENUATIONmodule.__init__(filters)\<close>, called through \<open>super().__init__\<close>.\<close>

definition ATTENUATIONmodule_init :: "obj \<Rightarrow> string \<Rightarrow> error + obj" where
  "ATTENUATIONmodule_init self filters = assign self ''filters'' (StrProperty filters)"

text \<open>
  \<open>DUSTATT_MODIFIED_CF00module.__init__(filters, Av_ISM, mu, slope_ISM, slope_BC)\<close>.
  The last two statements of the source both assign \<open>self.slope_ISM\<close>:
  \<^verbatim>\<open>self.slope_ISM = ListFloatProperty(slope_ISM)\<close> and then
  \<^verbatim>\<open>self.slope_ISM = ListFloatProperty(slope_BC)\<close>.
\<close>

definition DUSTATT_MODIFIED_CF00module_init ::
  "string \<Rightarrow> rat list \<Rightarrow> rat list \<Rightarrow> rat list \<Rightarrow> rat list \<Rightarrow> error + obj" where
  "DUSTATT_MODIFIED_CF00module_init filters Av_ISM mu slope_ISM slope_BC =
     andThen (ATTENUATIONmodule_init Map.empty filters) (\<lambda>s0.
     andThen (assign s0 ''filters'' (StrProperty filters)) (\<lambda>s1.
     andThen (assign s1 ''Av_ISM'' (ListFloatProperty Av_ISM (Some 0.0) None noTest noMsg)) (\<lambda>s2.
     andThen (assign s2 ''mu''
                (ListFloatProperty mu (Some 0.0001) (Some 1.0) noTest noMsg)) (\<lambda>s3.
     andThen (assign s3 ''slope_ISM''
                (ListFloatProperty slope_ISM None None noTest noMsg)) (\<lambda>s4.
     assign s4 ''slope_ISM'' (ListFloatProperty slope_BC None None noTest noMsg))))))"

text \<open>\<open>DUSTATT_MODIFIED_CF00module.__str__\<close>\<close>

definition DUSTATT_MODIFIED_CF00module_str :: "(attr \<Rightarrow> string) \<Rightarrow> obj \<Rightarrow> error + string" where
  "DUSTATT_MODIFIED_CF00module_str fmt self =
     andThen (getattr self ''Av_ISM'') (\<lambda>a1.
     andThen (getattr self ''mu'') (\<lambda>a2.
     andThen (getattr self ''slope_ISM'') (\<lambda>a3.
     andThen (getattr self ''slope_BC'') (\<lambda>a4.
     andThen (getattr self ''filters'') (\<lambda>a5.
       Inr (concat
         [nl, ''        [[dustatt_modified_CF00]]'', nl,
          ''          # V-band attenuation in the interstellar medium.'', nl,
          ''          Av_ISM = '', fmt a1, nl,
          ''          # Av_ISM / (Av_BC+Av_ISM)'', nl,
          ''          mu = '', fmt a2, nl,
          ''          # Power law slope of the attenuation in the ISM.'', nl,
          ''          slope_ISM = '', fmt a3, nl,
          ''          # Power law slope of the attenuation in the birth clouds.'', nl,
          ''          slope_BC = '', fmt a4, nl,
          ''          # Filters for which the attenuation will be computed and added to the'', nl,
          ''          # SED information dictionary. You can give several filter names'', nl,
          ''          # separated by a & (don't use commas).'', nl,
          ''          filters = '', fmt a5, nl,
          ''        '']))))))"

text \<open>
  \<open>DUSTATT_MODIFIED_STARBUSTmodule.__init__\<close>, with its nine arguments in the source's
  order. The declared default of \<open>E_BV_factor\<close> is \<open>[0.44]\<close>. The declared defaults of
  \<open>Ext_law_emission_lines\<close> and \<open>Rv\<close> are the scalars \<open>1\<close> and \<open>3.1\<close>, not lists; both
  arguments are taken at their annotated list types, and both are read after
  \<open>E_BV_factor\<close>.
\<close>

definition E_BV_factor_default :: "rat list" where
  "E_BV_factor_default = [0.44]"

text \<open>The property built for \<open>self.E_BV_factor\<close>.\<close>

definition STARBUST_E_BV_factor :: "rat list \<Rightarrow> error + attr" where
  "STARBUST_E_BV_factor E_BV_factor =
     ListFloatProperty E_BV_factor (Some 0.0) (Some 0.0) noTest noMsg"

definition DUSTATT_MODIFIED_STARBUSTmodule_init ::
  "string \<Rightarrow> rat list \<Rightarrow> rat list \<Rightarrow> rat list \<Rightarrow> rat list \<Rightarrow> rat list \<Rightarrow> rat list
     \<Rightarrow> int list \<Rightarrow> rat list \<Rightarrow> error + obj" where
  "DUSTATT_MODIFIED_STARBUSTmodule_init filters E_BV_lines E_BV_factor uv_bump_wavelength
       uv_bump_width uv_bump_amplitude powerlaw_slope Ext_law_emission_lines Rv =
     andThen (ATTENUATIONmodule_init Map.empty filters) (\<lambda>s0.
     andThen (assign s0 ''filters'' (StrProperty filters)) (\<lambda>s1.
     andThen (assign s1 ''E_BV_lines''
                (ListFloatProperty E_BV_lines (Some 0.0) None noTest noMsg)) (\<lambda>s2.
     andThen (assign s2 ''E_BV_factor'' (STARBUST_E_BV_factor E_BV_factor)) (\<lambda>s3.
     andThen (assign s3 ''uv_bump_wavelength''
                (ListFloatProperty uv_bump_wavelength (Some 0.0) None noTest noMsg)) (\<lambda>s4.
     andThen (assign s4 ''uv_bump_width''
                (ListFloatProperty uv_bump_width (Some 0.0) None noTest noMsg)) (\<lambda>s5.
     andThen (assign s5 ''uv_bump_amplitude''
                (ListFloatProperty uv_bump_amplitude (Some 0.0) None noTest noMsg)) (\<lambda>s6.
     andThen (assign s6 ''powerlaw_slope''
                (ListFloatProperty powerlaw_slope None None noTest noMsg)) (\<lambda>s7.
     andThen (assign s7 ''Ext_law_emission_lines''
                (ListIntProperty Ext_law_emission_lines (Some 1) (Some 3) noTest noMsg)) (\<lambda>s8.
     assign s8 ''Rv'' (ListFloatProperty Rv None None noTest noMsg))))))))))"

text \<open>\<open>DUSTATT_MODIFIED_STARBUSTmodule.__str__\<close>\<close>

definition DUSTATT_MODIFIED_STARBUSTmodule_str :: "(attr \<Rightarrow> string) \<Rightarrow> obj \<Rightarrow> error + string" where
  "DUSTATT_MODIFIED_STARBUSTmodule_str fmt self =
     andThen (getattr self ''E_BV_lines'') (\<lambda>a1.
     andThen (getattr self ''E_BV_factor'') (\<lambda>a2.
     andThen (getattr self ''uv_bump_wavelength'') (\<lambda>a3.
     andThen (getattr self ''uv_bump_width'') (\<lambda>a4.
     andThen (getattr self ''uv_bump_amplitude'') (\<lambda>a5.
     andThen (getattr self ''powerlaw_slope'') (\<lambda>a6.
     andThen (getattr self ''Ext_law_emission_lines'') (\<lambda>a7.
     andThen (getattr self ''Rv'') (\<lambda>a8.
     andThen (getattr self ''filters'') (\<lambda>a9.
       Inr (concat
         [nl, ''        [[dustatt_modified_starburst]]'', nl,
          ''          # E(B-V)l, the colour excess of the nebular lines light for both the'', nl,
          ''          # young and old population.'', nl,
          ''          E_BV_lines = '', fmt a1, nl,
          ''          # Reduction factor to apply on E_BV_lines to compute E(B-V)s the stellar'', nl,
          ''          # continuum attenuation. Both young and old population are attenuated'', nl,
          ''          # with E(B-V)s.'', nl,
          ''          E_BV_factor = '', fmt a2, nl,
          ''          # Central wavelength of the UV bump in nm.'', nl,
          ''          uv_bump_wavelength = '', fmt a3, nl,
          ''          # Width (FWHM) of the UV bump in nm.'', nl,
          ''          uv_bump_width = '', fmt a4, nl,
          ''          # Amplitude of the UV bump. For the Milky Way: 3.'', nl,
          ''          uv_bump_amplitude = '', fmt a5, nl,
          ''          # Slope delta of the power law modifying the attenuation curve.'', nl,
          ''          powerlaw_slope = '', fmt a6, nl,
          ''          # Extinction law to use for attenuating the emissio  n lines flux.'', nl,
          ''          # Possible values are: 1, 2, 3. 1: MW, 2: LMC, 3: SMC. MW is modelled'', nl,
          ''          # using CCM89, SMC and LMC using Pei92.'', nl,
          ''          Ext_law_emission_lines = '', fmt a7, nl,
          ''          # Ratio of total to selective extinction, A_V / E(B-V), for the'', nl,
          ''          # extinction curve applied to emission lines.Standard value is 3.1 for'', nl,
          ''          # MW using CCM89, but can be changed.For SMC and LMC using Pei92 the'', nl,
          ''          # value is automatically set to 2.93 and 3.16 respectively, no matter'', nl,
          ''          # the value you write.'', nl,
          ''          Rv = '', fmt a8, nl,
          ''          # Filters for which the attenuation will be computed and added to the'', nl,
          ''          # SED information dictionary. You can give several filter names'', nl,
          ''          # separated by a & (don't use commas).'', nl,
          ''          filters = '', fmt a9, nl,
          ''        '']))))))))))"

section \<open>Pixel index and image reconstruction\<close>

text \<open>
  The classes \<open>Filter\<close> and \<open>FilterList\<close> (module filters) and the output parser with
  its operations \<open>link\<close> and \<open>toImage\<close> (module outputs) are imported by the package's
  \<open>__init__.py\<close> and called by docs/examples/example1-1.py, but neither module is among
  the sources. Every definition of this section is modelled from the spec's sections
  3, 4.1 to 4.4, 7 and 8, sentence by sentence.
\<close>

subsection \<open>Data model\<close>

text \<open>Modelled from the spec: the error taxonomy of the absent modules (section 7).\<close>

datatype SEDerror = ShapeMismatch | EmptyMask | InvalidParameter | IndexMismatch | UnknownColumn

text \<open>
  Modelled from the spec: the 2D arrays of the absent modules and their shapes. A 2D
  array is the list of its rows; \<open>a ! y ! x\<close> is the pixel at row \<open>y\<close>, column
  \<open>x\<close>. Two arrays have the same shape when they have the same number of rows and
  their rows have the same lengths.
\<close>

type_synonym 'a array2 = "'a list list"

definition shape :: "'a array2 \<Rightarrow> nat list" where
  "shape a = map length a"

text \<open>
  Modelled from the spec: the class \<open>Filter\<close> of the absent module filters (sections 3
  and 4.1). A Filter: band name, flux map, optional PSF-squared-convolved flux map, variance
  map and zero-point. Construction fails with \<open>ShapeMismatch\<close> if the arrays' shapes
  differ.
\<close>

record Filter =
  band :: string
  flux :: "rat array2"
  flux2 :: "rat array2 option"
  var :: "rat array2"
  zeropoint :: rat

definition Filter_new ::
  "string \<Rightarrow> rat array2 \<Rightarrow> rat array2 option \<Rightarrow> rat array2 \<Rightarrow> rat \<Rightarrow> SEDerror + Filter" where
  "Filter_new name data data2 variance zpt =
     (if shape variance \<noteq> shape data
         \<or> (case data2 of None \<Rightarrow> False | Some d2 \<Rightarrow> shape d2 \<noteq> shape data)
      then Inl ShapeMismatch
      else Inr \<lparr>band = name, flux = data, flux2 = data2, var = variance, zeropoint = zpt\<rparr>)"

text \<open>Modelled from the spec: the fitting-code tag \<open>SEDcode\<close> of the absent module misc.\<close>

datatype SEDcode = LEPHARE | CIGALE

text \<open>
  Modelled from the spec: the class \<open>FilterList\<close> of the absent module filters
  (section 3). A FilterList: the ordered Filters, the mask (true = pixel excluded;
  the field is \<open>mask_arr\<close>, \<open>mask\<close> being a constant of HOL), the
  fitting-code tag, the redshift, and the pixel index it owns: the inverse mapping
  (row id to \<open>(y, x)\<close>, the list whose \<open>r\<close>-th entry is the coordinate of row id \<open>r\<close>)
  and the forward mapping (\<open>(y, x)\<close> to row id, with no entry for a masked pixel).
\<close>

record FilterList =
  filterSeq :: "Filter list"
  mask_arr :: "bool array2"
  code :: SEDcode
  redshift :: rat
  inverseMap :: "(nat \<times> nat) list"
  forwardMap :: "((nat \<times> nat) \<times> nat) list"

subsection \<open>Building the pixel index\<close>

text \<open>
  Modelled from the spec: the pixel index built by the absent \<open>FilterList\<close> constructor
  (section 4.2). Iterate pixels in row-major order and keep those where the mask is
  false, assigning consecutive row ids:
  \<open>scanRow y x ms\<close> walks the rest \<open>ms\<close> of row \<open>y\<close> from column \<open>x\<close> on, \<open>scanRows\<close>
  walks the rows from row \<open>y\<close> on. The position in the resulting list is the row id.
\<close>

fun scanRow :: "nat \<Rightarrow> nat \<Rightarrow> bool list \<Rightarrow> (nat \<times> nat) list" where
  "scanRow y x [] = []"
| "scanRow y x (m # ms) = (if m then scanRow y (Suc x) ms else (y, x) # scanRow y (Suc x) ms)"

text \<open>Modelled from the spec: the row-major scan over the rows, from row \<open>y\<close> on.\<close>

fun scanRows :: "nat \<Rightarrow> bool array2 \<Rightarrow> (nat \<times> nat) list" where
  "scanRows y [] = []"
| "scanRows y (r # rs) = scanRow y 0 r @ scanRows (Suc y) rs"

text \<open>
  Modelled from the spec: the inverse mapping of a mask, the scan of the whole grid
  from row 0.
\<close>

definition pixelIndex :: "bool array2 \<Rightarrow> (nat \<times> nat) list" where
  "pixelIndex m = scanRows 0 m"

text \<open>
  Modelled from the spec: the absent \<open>FilterList\<close> constructor (section 4.2).
  Construction: at least one Filter, all of the mask's shape, else \<open>ShapeMismatch\<close>;
  the pixel index is built immediately.
\<close>

definition FilterList_new ::
  "Filter list \<Rightarrow> bool array2 \<Rightarrow> SEDcode \<Rightarrow> rat \<Rightarrow> SEDerror + FilterList" where
  "FilterList_new fs m c z =
     (if fs = [] \<or> (\<exists>f \<in> set fs. shape (flux f) \<noteq> shape m \<or> shape (var f) \<noteq> shape m)
      then Inl ShapeMismatch
      else Inr \<lparr>filterSeq = fs, mask_arr = m, code = c, redshift = z,
                inverseMap = pixelIndex m,
                forwardMap = zip (pixelIndex m) [0..<length (pixelIndex m)]\<rparr>)"

subsection \<open>Output parser: link\<close>

text \<open>
  Modelled from the spec: the output table read by the absent module outputs
  (sections 3 and 4.3). An output table, already loaded: the names of its columns and its rows, each row
  with its identity value and its cell for every column name.
\<close>

record 'v OutputTable =
  columns :: "string list"
  rows :: "(int \<times> (string \<Rightarrow> 'v)) list"

text \<open>
  Modelled from the spec: the state of the absent output parser after \<open>link\<close> (section
  4.3). A linked output: the table, the FilterList it refers to, and the rows indexed by
  identity.
\<close>

record 'v LinkedOutput =
  table :: "'v OutputTable"
  flist :: FilterList
  byId :: "int \<rightharpoonup> (string \<Rightarrow> 'v)"

text \<open>
  Modelled from the spec: the operation \<open>link\<close> of the absent module outputs (section
  4.3). \<open>link\<close> fails with \<open>IndexMismatch\<close> if the row count differs from the cardinality
  \<open>N\<close> of the pixel index or if the set of identity values is not exactly
  \<open>{0..N-1}\<close>.
\<close>

definition link :: "'v OutputTable \<Rightarrow> FilterList \<Rightarrow> SEDerror + 'v LinkedOutput" where
  "link tbl fl =
     (let N = length (inverseMap fl) in
      if length (rows tbl) \<noteq> N \<or> set (map fst (rows tbl)) \<noteq> set (map int [0..<N])
      then Inl IndexMismatch
      else Inr \<lparr>table = tbl, flist = fl, byId = map_of (rows tbl)\<rparr>)"

subsection \<open>Image reconstructor: toImage\<close>

text \<open>
  Modelled from the spec: a pixel of a reconstructed image (section 3), the no-data
  sentinel or a value.
\<close>

datatype 'v pixel = NoData | Val 'v

text \<open>
  Modelled from the spec: the array \<open>toImage\<close> allocates (section 4.4), shaped like the
  pixel grid with the sentinel at every pixel.
\<close>

definition blank :: "bool array2 \<Rightarrow> 'v pixel array2" where
  "blank m = map (map (\<lambda>_. NoData)) m"

text \<open>
  Modelled from the spec: the write of one column value at \<open>(y, x)\<close> by \<open>toImage\<close>
  (section 4.4). The spec says nothing of a coordinate outside the array; here it
  writes nothing, and the coordinates of a pixel index are never outside.
\<close>

definition writePixel :: "'v pixel array2 \<Rightarrow> nat \<times> nat \<Rightarrow> 'v \<Rightarrow> 'v pixel array2" where
  "writePixel img p v =
     (case p of (y, x) \<Rightarrow>
        if y < length img \<and> x < length (img ! y) then img[y := (img ! y)[x := Val v]] else img)"

text \<open>
  Modelled from the spec: the lookup of a row id's \<open>(y, x)\<close> through the inverse mapping
  (section 4.4); a row id outside \<open>0..N-1\<close> has none.
\<close>

definition coordOf :: "FilterList \<Rightarrow> int \<Rightarrow> (nat \<times> nat) option" where
  "coordOf fl r =
     (if 0 \<le> r \<and> nat r < length (inverseMap fl) then Some (inverseMap fl ! nat r) else None)"

text \<open>
  Modelled from the spec: the operation \<open>toImage\<close> of the absent module outputs
  (section 4.4). \<open>toImage\<close> fails with \<open>UnknownColumn\<close> if the column is absent; otherwise it fills the
  grid with the sentinel and, for every row of the output table, looks up the row
  id's \<open>(y, x)\<close> and writes the column value there.
\<close>

definition toImage :: "'v LinkedOutput \<Rightarrow> string \<Rightarrow> SEDerror + 'v pixel array2" where
  "toImage out columnName =
     (if columnName \<notin> set (columns (table out)) then Inl UnknownColumn
      else Inr (fold (\<lambda>row img. case coordOf (flist out) (fst row) of
                                    None \<Rightarrow> img
                                  | Some p \<Rightarrow> writePixel img p (snd row columnName))
                  (rows (table out)) (blank (mask_arr (flist out)))))"

text \<open>
  Modelled from the spec: \<open>link\<close> followed by \<open>toImage\<close>, as the example script and the
  testable properties of section 8 call them.
\<close>

definition reconstruct ::
  "'v OutputTable \<Rightarrow> FilterList \<Rightarrow> string \<Rightarrow> SEDerror + 'v pixel array2" where
  "reconstruct tbl fl columnName =
     (case link tbl fl of Inl e \<Rightarrow> Inl e | Inr out \<Rightarrow> toImage out columnName)"

subsection \<open>Synthetic output tables\<close>

text \<open>
  Modelled from the spec: the synthetic output tables of the testable properties
  (section 8). A full synthetic output table for an index of \<open>N\<close> pixels: one row per row id
  \<open>0..N-1\<close>, in order, row \<open>r\<close> holding \<open>cell r c\<close> in column \<open>c\<close>. The row-id table
  has one column, which carries each row's own row id.
\<close>

definition syntheticTable :: "nat \<Rightarrow> string list \<Rightarrow> (nat \<Rightarrow> string \<Rightarrow> 'v) \<Rightarrow> 'v OutputTable" where
  "syntheticTable N cols cell = \<lparr>columns = cols, rows = map (\<lambda>r. (int r, cell r)) [0..<N]\<rparr>"

text \<open>
  Modelled from the spec: the synthetic table of the round-trip property (section 8),
  whose one column carries each row's own row id.
\<close>

definition rowIdTable :: "FilterList \<Rightarrow> string \<Rightarrow> nat OutputTable" where
  "rowIdTable fl c = syntheticTable (length (inverseMap fl)) [c] (\<lambda>r _. r)"

subsection \<open>Row-major order and reading an image back\<close>

text \<open>
  Modelled from the spec: row-major scan order on coordinates \<open>(y, x)\<close> (section 4.2),
  rows first, then columns within a row.
\<close>

definition rowMajor :: "nat \<times> nat \<Rightarrow> nat \<times> nat \<Rightarrow> bool" where
  "rowMajor p q = (fst p < fst q \<or> (fst p = fst q \<and> snd p < snd q))"

text \<open>
  Modelled from the spec: reading a reconstructed image back in row-major order, as
  the round-trip property of section 8 does: the coordinates that hold data, each
  with the value found there.
\<close>

fun readRow :: "nat \<Rightarrow> nat \<Rightarrow> 'v pixel list \<Rightarrow> ((nat \<times> nat) \<times> 'v) list" where
  "readRow y x [] = []"
| "readRow y x (NoData # ps) = readRow y (Suc x) ps"
| "readRow y x (Val v # ps) = ((y, x), v) # readRow y (Suc x) ps"

text \<open>Modelled from the spec: the row-major read over the rows of an image.\<close>

fun readRows :: "nat \<Rightarrow> 'v pixel array2 \<Rightarrow> ((nat \<times> nat) \<times> 'v) list" where
  "readRows y [] = []"
| "readRows y (r # rs) = readRow y 0 r @ readRows (Suc y) rs"

text \<open>Modelled from the spec: the read of a whole image, from row 0.\<close>

definition imageIndex :: "'v pixel array2 \<Rightarrow> ((nat \<times> nat) \<times> 'v) list" where
  "imageIndex img = readRows 0 img"

text \<open>
  Modelled from the spec: the mask of the 3 by 3 scenario (section 8), all false
  except the centre pixel.
\<close>

definition centerMask :: "bool array2" where
  "centerMask = [[False, False, False], [False, True, False], [False, False, False]]"

section \<open>Properties of the Cigale modules\<close>

subsection \<open>Sequencing, attributes and properties\<close>

lemma andThen_Inr_iff: "andThen m f = Inr y \<longleftrightarrow> (\<exists>x. m = Inr x \<and> f x = Inr y)"
  by (cases m) (simp_all add: andThen_def)

lemma assign_Inr_iff: "assign self n m = Inr s \<longleftrightarrow> (\<exists>v. m = Inr v \<and> s = setattr self n v)"
  by (auto simp: assign_def andThen_Inr_iff)

lemma assign_Inl: "m = Inl e \<Longrightarrow> assign self n m = Inl e"
  by (simp add: assign_def andThen_def)

lemma ListProperty_Inr_iff:
  "ListProperty val minBound maxBound testFunc testMsg = Inr v \<longleftrightarrow>
     v = val \<and> (\<forall>lo. minBound = Some lo \<longrightarrow> (\<forall>i \<in> set val. lo \<le> i))
       \<and> (\<forall>hi. maxBound = Some hi \<longrightarrow> (\<forall>i \<in> set val. i \<le> hi)) \<and> \<not> testFunc val"
  by (cases minBound; cases maxBound) (auto simp: ListProperty_def Bex_def Ball_def not_le)

lemma ListFloatProperty_Inr_iff:
  "ListFloatProperty val minBound maxBound testFunc testMsg = Inr p \<longleftrightarrow>
     p = ListFloatP val \<and> (\<forall>lo. minBound = Some lo \<longrightarrow> (\<forall>i \<in> set val. lo \<le> i))
       \<and> (\<forall>hi. maxBound = Some hi \<longrightarrow> (\<forall>i \<in> set val. i \<le> hi)) \<and> \<not> testFunc val"
  by (auto simp: ListFloatProperty_def andThen_Inr_iff ListProperty_Inr_iff)

lemma getattr_setattr: "getattr (setattr self n v) m = (if m = n then Inr v else getattr self m)"
  by (simp add: getattr_def setattr_def)

lemma getattr_empty: "getattr Map.empty n = Inl (AttributeError n)"
  by (simp add: getattr_def)

subsection \<open>Rendering a module\<close>

text \<open>
  A constructed NEBULARmodule renders: every attribute its \<open>__str__\<close> reads was set by
  its \<open>__init__\<close>.
\<close>

lemma NEBULAR_str_total:
  "NEBULARmodule_init logU f_esc f_dust lines_width include_emission = Inr self \<Longrightarrow>
     \<exists>s. NEBULARmodule_str fmt self = Inr s"
proof -
  assume "NEBULARmodule_init logU f_esc f_dust lines_width include_emission = Inr self"
  then obtain p1 p2 p3 p4 p5 where self: "self = setattr (setattr (setattr (setattr (setattr
      Map.empty ''logU'' p1) ''f_esc'' p2) ''f_dust'' p3) ''lines_width'' p4) ''emission'' p5"
    by (auto simp: NEBULARmodule_init_def andThen_Inr_iff assign_Inr_iff)
  show ?thesis
    unfolding NEBULARmodule_str_def self by (simp add: getattr_setattr andThen_def)
qed

text \<open>
  So does a constructed DUSTATT_MODIFIED_STARBUSTmodule, the other subclass of
  ATTENUATIONmodule.
\<close>

lemma STARBUST_str_total:
  "DUSTATT_MODIFIED_STARBUSTmodule_init filters E_BV_lines E_BV_factor uv_bump_wavelength
     uv_bump_width uv_bump_amplitude powerlaw_slope Ext_law_emission_lines Rv = Inr self \<Longrightarrow>
     \<exists>s. DUSTATT_MODIFIED_STARBUSTmodule_str fmt self = Inr s"
proof -
  assume "DUSTATT_MODIFIED_STARBUSTmodule_init filters E_BV_lines E_BV_factor uv_bump_wavelength
     uv_bump_width uv_bump_amplitude powerlaw_slope Ext_law_emission_lines Rv = Inr self"
  then obtain p0 p1 p2 p3 p4 p5 p6 p7 p8 p9 where self: "self =
      setattr (setattr (setattr (setattr (setattr (setattr (setattr (setattr (setattr (setattr
        Map.empty ''filters'' p0) ''filters'' p1) ''E_BV_lines'' p2) ''E_BV_factor'' p3)
        ''uv_bump_wavelength'' p4) ''uv_bump_width'' p5) ''uv_bump_amplitude'' p6)
        ''powerlaw_slope'' p7) ''Ext_law_emission_lines'' p8) ''Rv'' p9"
    by (auto simp: DUSTATT_MODIFIED_STARBUSTmodule_init_def ATTENUATIONmodule_init_def
        andThen_Inr_iff assign_Inr_iff)
  show ?thesis
    unfolding DUSTATT_MODIFIED_STARBUSTmodule_str_def self
    by (simp add: getattr_setattr andThen_def)
qed

text \<open>
  Claim C8: every module that has been constructed can render itself; in particular
  every constructed DUSTATT_MODIFIED_CF00module. The code does not do this for
  DUSTATT_MODIFIED_CF00module: its \<open>__init__\<close> assigns \<open>self.slope_ISM\<close> twice and never
  \<open>self.slope_BC\<close>, which its \<open>__str__\<close> reads. Every instance that \<open>__init__\<close> returns
  makes \<open>__str__\<close> raise \<open>AttributeError\<close> for \<open>slope_BC\<close>, whatever the arguments and
  whatever the string conversion of the properties.
\<close>

theorem CF00_str_raises:
  "DUSTATT_MODIFIED_CF00module_init filters Av_ISM mu slope_ISM slope_BC = Inr self \<Longrightarrow>
     DUSTATT_MODIFIED_CF00module_str fmt self = Inl (AttributeError ''slope_BC'')"
proof -
  assume "DUSTATT_MODIFIED_CF00module_init filters Av_ISM mu slope_ISM slope_BC = Inr self"
  then obtain p0 p1 p2 p3 p4 p5 where self: "self = setattr (setattr (setattr (setattr (setattr
      (setattr Map.empty ''filters'' p0) ''filters'' p1) ''Av_ISM'' p2) ''mu'' p3)
      ''slope_ISM'' p4) ''slope_ISM'' p5"
    by (auto simp: DUSTATT_MODIFIED_CF00module_init_def ATTENUATIONmodule_init_def
        andThen_Inr_iff assign_Inr_iff)
  show ?thesis
    unfolding DUSTATT_MODIFIED_CF00module_str_def self
    by (simp add: getattr_setattr getattr_empty andThen_def)
qed

theorem CF00_str_raises_witness:
  "\<exists>self. DUSTATT_MODIFIED_CF00module_init ''V_B90 & FUV'' [1.0] [0.44] [-0.7] [-1.3] = Inr self
     \<and> DUSTATT_MODIFIED_CF00module_str (\<lambda>p. []) self = Inl (AttributeError ''slope_BC'')"
proof -
  have "\<exists>self. DUSTATT_MODIFIED_CF00module_init ''V_B90 & FUV'' [1.0] [0.44] [-0.7] [-1.3] = Inr self"
    by (simp add: DUSTATT_MODIFIED_CF00module_init_def ATTENUATIONmodule_init_def andThen_def
        assign_def StrProperty_def ListFloatProperty_def ListProperty_def noTest_def)
  then show ?thesis using CF00_str_raises by blast
qed

subsection \<open>The bounds of E_BV_factor\<close>

lemma E_BV_factor_refused:
  assumes "\<exists>x \<in> set E_BV_factor. 0 < x"
  shows "\<exists>e. STARBUST_E_BV_factor E_BV_factor = Inl e"
  using assms
  by (auto simp: STARBUST_E_BV_factor_def ListFloatProperty_def ListProperty_def andThen_def)

text \<open>
  Claim C9: DUSTATT_MODIFIED_STARBUSTmodule validates \<open>E_BV_factor\<close> against
  \<open>minBound = 0.0\<close> and \<open>maxBound = 0.0\<close>. The property is built exactly when every
  value of the list equals 0; construction fails for every list with a value
  strictly greater than 0, whatever the other arguments, and so it fails with the
  declared default \<open>[0.44]\<close>.
\<close>

theorem STARBUST_E_BV_factor_bounds:
  "((\<exists>p. STARBUST_E_BV_factor E_BV_factor = Inr p) \<longleftrightarrow> (\<forall>x \<in> set E_BV_factor. x = 0))
   \<and> ((\<exists>x \<in> set E_BV_factor. 0 < x) \<longrightarrow>
        (\<exists>e. DUSTATT_MODIFIED_STARBUSTmodule_init filters E_BV_lines E_BV_factor
               uv_bump_wavelength uv_bump_width uv_bump_amplitude powerlaw_slope
               Ext_law_emission_lines Rv = Inl e))
   \<and> (\<exists>e. DUSTATT_MODIFIED_STARBUSTmodule_init filters E_BV_lines E_BV_factor_default
               uv_bump_wavelength uv_bump_width uv_bump_amplitude powerlaw_slope
               Ext_law_emission_lines Rv = Inl e)"
proof -
  have iff: "(\<exists>p. STARBUST_E_BV_factor E_BV_factor = Inr p) \<longleftrightarrow> (\<forall>x \<in> set E_BV_factor. x = 0)"
    by (auto simp: STARBUST_E_BV_factor_def ListFloatProperty_Inr_iff noTest_def
        intro: order_antisym)
  have fail: "\<exists>e. DUSTATT_MODIFIED_STARBUSTmodule_init filters E_BV_lines E
               uv_bump_wavelength uv_bump_width uv_bump_amplitude powerlaw_slope
               Ext_law_emission_lines Rv = Inl e" if "\<exists>x \<in> set E. 0 < x" for E
  proof -
    from that obtain e where e: "STARBUST_E_BV_factor E = Inl e"
      using E_BV_factor_refused by blast
    show ?thesis
    proof (cases "ListFloatProperty E_BV_lines (Some 0.0) None noTest noMsg")
      case (Inl e')
      then show ?thesis
        by (simp add: DUSTATT_MODIFIED_STARBUSTmodule_init_def ATTENUATIONmodule_init_def
            StrProperty_def andThen_def assign_def)
    next
      case (Inr p)
      with e show ?thesis
        by (simp add: DUSTATT_MODIFIED_STARBUSTmodule_init_def ATTENUATIONmodule_init_def
            StrProperty_def andThen_def assign_def)
    qed
  qed
  have "\<exists>x \<in> set E_BV_factor_default. 0 < x"
    unfolding E_BV_factor_default_def by (rule bexI [of _ "0.44"]) simp_all
  with iff fail show ?thesis by blast
qed

theorem STARBUST_E_BV_factor_bounds_witness:
  "(\<exists>e. DUSTATT_MODIFIED_STARBUSTmodule_init ''B_B90 & V_B90 & FUV'' [0.3] [0.44] [217.5] [35.0]
           [0.0] [0.0] [1] [3.1] = Inl e)
   \<and> STARBUST_E_BV_factor [0.0, 0.0] = Inr (ListFloatP [0.0, 0.0])
   \<and> (\<exists>e. STARBUST_E_BV_factor [0.0, 0.44] = Inl e)"
proof -
  have a: "\<exists>x \<in> set [0.44::rat]. 0 < x" by (rule bexI [of _ "0.44"]) simp_all
  have b: "\<forall>x \<in> set [0.0, 0.0::rat]. x = 0" by simp
  have c: "\<not> (\<forall>x \<in> set [0.0, 0.44::rat]. x = 0)"
  proof
    assume h: "\<forall>x \<in> set [0.0, 0.44::rat]. x = 0"
    have "(0.44::rat) \<in> set [0.0, 0.44]" by simp
    with h have "(0.44::rat) = 0" by blast
    then show False by simp
  qed
  from STARBUST_E_BV_factor_bounds [of "[0.0, 0.0]"] b
  obtain p where p: "STARBUST_E_BV_factor [0.0, 0.0] = Inr p" by blast
  then have p': "p = ListFloatP [0.0, 0.0]"
    by (simp add: STARBUST_E_BV_factor_def ListFloatProperty_Inr_iff)
  from STARBUST_E_BV_factor_bounds [of "[0.0, 0.44]"] c
  have "\<not> (\<exists>p. STARBUST_E_BV_factor [0.0, 0.44] = Inr p)" by blast
  then have d: "\<exists>e. STARBUST_E_BV_factor [0.0, 0.44] = Inl e"
    by (cases "STARBUST_E_BV_factor [0.0, 0.44]") auto
  from STARBUST_E_BV_factor_bounds [of "[0.44]" "''B_B90 & V_B90 & FUV''" "[0.3]" "[217.5]" "[35.0]"
      "[0.0]" "[0.0]" "[1]" "[3.1]"] a
  have "\<exists>e. DUSTATT_MODIFIED_STARBUSTmodule_init ''B_B90 & V_B90 & FUV'' [0.3] [0.44] [217.5] [35.0]
           [0.0] [0.0] [1] [3.1] = Inl e" by blast
  with p p' d show ?thesis by blast
qed

subsection \<open>The grid of logU\<close>

lemma set_logURange: "set logURange = (\<lambda>i. rat_of_int i / 10) ` {-40..-10}"
  by (simp only: logURange_def py_range_def set_map set_upto) simp

lemma logURange_bounds: "x \<in> set logURange \<Longrightarrow> -4 \<le> x \<and> x \<le> -1"
  by (auto simp: set_logURange)

text \<open>
  Claim C10: NEBULARmodule accepts a \<open>logU\<close> list if and only if every element is
  \<open>i/10\<close> for an integer \<open>i\<close> with \<open>-40 \<le> i \<le> -10\<close>; an element off this grid, or
  outside \<open>[-4.0, -1.0]\<close>, makes construction fail, whatever the other arguments.
\<close>

theorem NEBULAR_logU_grid:
  "((\<exists>p. NEBULAR_logU logU = Inr p) \<longleftrightarrow>
      (\<forall>x \<in> set logU. \<exists>i::int. -40 \<le> i \<and> i \<le> -10 \<and> x = rat_of_int i / 10))
   \<and> ((\<exists>x \<in> set logU. \<not> (\<exists>i::int. -40 \<le> i \<and> i \<le> -10 \<and> x = rat_of_int i / 10)) \<longrightarrow>
      (\<exists>e. NEBULARmodule_init logU f_esc f_dust lines_width include_emission = Inl e))
   \<and> ((\<exists>x \<in> set logU. x < -4 \<or> -1 < x) \<longrightarrow>
      (\<exists>e. NEBULARmodule_init logU f_esc f_dust lines_width include_emission = Inl e))
   \<and> ((\<forall>x \<in> set logU. \<exists>i::int. -40 \<le> i \<and> i \<le> -10 \<and> x = rat_of_int i / 10)
        \<and> (\<forall>x \<in> set f_esc. 0 \<le> x \<and> x \<le> 1) \<and> (\<forall>x \<in> set f_dust. 0 \<le> x \<and> x \<le> 1)
        \<and> (\<forall>x \<in> set lines_width. 0 \<le> x) \<longrightarrow>
      (\<exists>self. NEBULARmodule_init logU f_esc f_dust lines_width include_emission = Inr self))"
proof -
  have grid: "(\<exists>p. NEBULAR_logU logU = Inr p) \<longleftrightarrow>
      (\<forall>x \<in> set logU. \<exists>i::int. -40 \<le> i \<and> i \<le> -10 \<and> x = rat_of_int i / 10)"
    (is "?acc \<longleftrightarrow> ?grid")
  proof
    assume ?acc
    then have "\<not> logU_testFunc logU"
      by (auto simp: NEBULAR_logU_def ListFloatProperty_Inr_iff)
    then show ?grid
      by (auto simp: logU_testFunc_def set_logURange)
  next
    assume g: ?grid
    have "\<forall>x \<in> set logU. x \<in> set logURange"
      using g by (auto simp: set_logURange)
    then show ?acc
      using logURange_bounds
      by (auto simp: NEBULAR_logU_def ListFloatProperty_Inr_iff logU_testFunc_def)
  qed
  have fail: "\<not> ?grid \<Longrightarrow> \<exists>e. NEBULARmodule_init logU f_esc f_dust lines_width include_emission = Inl e"
  proof -
    assume "\<not> ?grid"
    then have "\<not> ?acc" using grid by simp
    then obtain e where "NEBULAR_logU logU = Inl e"
      by (cases "NEBULAR_logU logU") auto
    then show ?thesis
      by (simp add: NEBULARmodule_init_def andThen_def assign_def)
  qed
  have out: "\<not> ?grid" if "\<exists>x \<in> set logU. x < -4 \<or> -1 < x"
  proof
    assume g: ?grid
    from that obtain x where x: "x \<in> set logU" "x < -4 \<or> -1 < x" by blast
    from g x(1) obtain i :: int where i: "-40 \<le> i" "i \<le> -10" "x = rat_of_int i / 10" by blast
    from i(1,2) have "rat_of_int (-40) \<le> rat_of_int i" "rat_of_int i \<le> rat_of_int (-10)"
      by (simp_all only: of_int_le_iff)
    with i(3) have "-4 \<le> x" "x \<le> -1" by simp_all
    with x(2) show False by simp
  qed
  have ok: "\<exists>self. NEBULARmodule_init logU f_esc f_dust lines_width include_emission = Inr self"
    if g: ?grid and e: "\<forall>x \<in> set f_esc. 0 \<le> x \<and> x \<le> 1"
      and d: "\<forall>x \<in> set f_dust. 0 \<le> x \<and> x \<le> 1" and w: "\<forall>x \<in> set lines_width. 0 \<le> x"
  proof -
    from g grid obtain p where p: "NEBULAR_logU logU = Inr p" by blast
    from e have pe: "ListFloatProperty f_esc (Some 0) (Some 1) noTest noMsg = Inr (ListFloatP f_esc)"
      by (simp add: ListFloatProperty_Inr_iff noTest_def)
    from d have pd: "ListFloatProperty f_dust (Some 0) (Some 1) noTest noMsg = Inr (ListFloatP f_dust)"
      by (simp add: ListFloatProperty_Inr_iff noTest_def)
    from w have pw: "ListFloatProperty lines_width (Some 0) None noTest noMsg
        = Inr (ListFloatP lines_width)"
      by (simp add: ListFloatProperty_Inr_iff noTest_def)
    show ?thesis
      by (simp add: NEBULARmodule_init_def assign_def andThen_def p pe pd pw BoolProperty_def)
  qed
  show ?thesis using grid fail out ok by blast
qed

theorem NEBULAR_logU_grid_witness:
  "NEBULAR_logU [-2.0, -1.5] = Inr (ListFloatP [-2.0, -1.5])
   \<and> (\<exists>self. NEBULARmodule_init [-2.0, -1.5] [0.0] [0.0] [300.0] True = Inr self)
   \<and> (\<exists>e. NEBULARmodule_init [-1.53] [0.0] [0.0] [300.0] True = Inl e)
   \<and> (\<exists>e. NEBULARmodule_init [-5.0] [0.0] [0.0] [300.0] True = Inl e)"
proof -
  have a: "\<forall>x \<in> set [-2.0, -1.5 :: rat]. \<exists>i::int. -40 \<le> i \<and> i \<le> -10 \<and> x = rat_of_int i / 10"
  proof -
    have "(-2.0::rat) = rat_of_int (-20) / 10" "-40 \<le> (-20::int)" "(-20::int) \<le> -10" by simp_all
    moreover have "(-1.5::rat) = rat_of_int (-15) / 10" "-40 \<le> (-15::int)" "(-15::int) \<le> -10" by simp_all
    ultimately show ?thesis by (metis insert_iff list.simps(15) empty_iff empty_set)
  qed
  have b: "\<exists>x \<in> set [-1.53::rat]. \<not> (\<exists>i::int. -40 \<le> i \<and> i \<le> -10 \<and> x = rat_of_int i / 10)"
  proof -
    have "-1.53 \<noteq> rat_of_int i / 10" for i
    proof
      assume "-1.53 = rat_of_int i / 10"
      then have "rat_of_int (10 * i) = rat_of_int (-153)" by simp
      then have "10 * i = -153" by (simp only: of_int_eq_iff)
      then show False by presburger
    qed
    then show ?thesis by simp
  qed
  have c: "\<exists>x \<in> set [-5.0::rat]. x < -4 \<or> -1 < x" by simp
  from NEBULAR_logU_grid [of "[-2.0, -1.5]" "[]" "[]" "[]" True] a
  obtain p where p: "NEBULAR_logU [-2.0, -1.5] = Inr p" by blast
  then have p': "p = ListFloatP [-2.0, -1.5]"
    by (simp add: NEBULAR_logU_def ListFloatProperty_Inr_iff)
  have "(\<forall>x \<in> set [0.0::rat]. 0 \<le> x \<and> x \<le> 1) \<and> (\<forall>x \<in> set [300.0::rat]. 0 \<le> x)"
    by simp
  with a NEBULAR_logU_grid [of "[-2.0, -1.5]" "[0.0]" "[0.0]" "[300.0]" True]
  have "\<exists>self. NEBULARmodule_init [-2.0, -1.5] [0.0] [0.0] [300.0] True = Inr self"
    by blast
  with p p' show ?thesis
    using NEBULAR_logU_grid [of "[-1.53]" "[0.0]" "[0.0]" "[300.0]" True] b
      NEBULAR_logU_grid [of "[-5.0]" "[0.0]" "[0.0]" "[300.0]" True] c
    by blast
qed

section \<open>Properties of the pixel index and the reconstruction\<close>

subsection \<open>The pixel index enumerates the non-masked pixels in row-major order\<close>

lemma set_scanRow:
  "set (scanRow y x ms) = {(y, x + i) | i. i < length ms \<and> \<not> ms ! i}"
proof (induction ms arbitrary: x)
  case Nil
  then show ?case by simp
next
  case (Cons m ms)
  have *: "{(y, x + i) | i. i < Suc (length ms) \<and> \<not> (m # ms) ! i}
         = (if m then {} else {(y, x)}) \<union> {(y, Suc x + i) | i. i < length ms \<and> \<not> ms ! i}"
    (is "?L = ?R")
  proof
    show "?L \<subseteq> ?R"
    proof
      fix p assume "p \<in> ?L"
      then obtain i where i: "p = (y, x + i)" "i < Suc (length ms)" "\<not> (m # ms) ! i" by blast
      show "p \<in> ?R"
      proof (cases i)
        case 0
        with i show ?thesis by simp
      next
        case (Suc j)
        with i have "p = (y, Suc x + j)" "j < length ms" "\<not> ms ! j" by simp_all
        then show ?thesis by blast
      qed
    qed
    show "?R \<subseteq> ?L"
    proof
      fix p assume "p \<in> ?R"
      then consider "\<not> m" "p = (y, x)" | j where "p = (y, Suc x + j)" "j < length ms" "\<not> ms ! j"
        by (auto split: if_splits)
      then show "p \<in> ?L"
      proof cases
        case 1
        then have "p = (y, x + 0)" "0 < Suc (length ms)" "\<not> (m # ms) ! 0" by simp_all
        then show ?thesis by blast
      next
        case 2
        then have "p = (y, x + Suc j)" "Suc j < Suc (length ms)" "\<not> (m # ms) ! Suc j" by simp_all
        then show ?thesis by blast
      qed
    qed
  qed
  show ?case using Cons.IH [of "Suc x"] * by (simp split: if_splits)
qed

lemma distinct_scanRow: "distinct (scanRow y x ms)"
  by (induction ms arbitrary: x) (auto simp: set_scanRow)

lemma set_scanRows:
  "set (scanRows y rs) = {(y + j, i) | j i. j < length rs \<and> i < length (rs ! j) \<and> \<not> rs ! j ! i}"
proof (induction rs arbitrary: y)
  case Nil
  then show ?case by simp
next
  case (Cons r rs)
  have *: "{(y + j, i) | j i. j < Suc (length rs) \<and> i < length ((r # rs) ! j) \<and> \<not> (r # rs) ! j ! i}
         = {(y, i) | i. i < length r \<and> \<not> r ! i}
           \<union> {(Suc y + j, i) | j i. j < length rs \<and> i < length (rs ! j) \<and> \<not> rs ! j ! i}"
    (is "?L = ?R")
  proof
    show "?L \<subseteq> ?R"
    proof
      fix p assume "p \<in> ?L"
      then obtain j i where ji: "p = (y + j, i)" "j < Suc (length rs)"
        "i < length ((r # rs) ! j)" "\<not> (r # rs) ! j ! i" by blast
      show "p \<in> ?R"
      proof (cases j)
        case 0
        with ji show ?thesis by simp
      next
        case (Suc k)
        with ji have "p = (Suc y + k, i)" "k < length rs" "i < length (rs ! k)" "\<not> rs ! k ! i"
          by simp_all
        then show ?thesis by blast
      qed
    qed
    show "?R \<subseteq> ?L"
    proof
      fix p assume "p \<in> ?R"
      then consider i where "p = (y, i)" "i < length r" "\<not> r ! i"
        | k i where "p = (Suc y + k, i)" "k < length rs" "i < length (rs ! k)" "\<not> rs ! k ! i"
        by blast
      then show "p \<in> ?L"
      proof cases
        case 1
        then have "p = (y + 0, i)" "0 < Suc (length rs)" "i < length ((r # rs) ! 0)"
          "\<not> (r # rs) ! 0 ! i" by simp_all
        then show ?thesis by blast
      next
        case 2
        then have "p = (y + Suc k, i)" "Suc k < Suc (length rs)" "i < length ((r # rs) ! Suc k)"
          "\<not> (r # rs) ! Suc k ! i" by simp_all
        then show ?thesis by blast
      qed
    qed
  qed
  show ?case using Cons.IH [of "Suc y"] * by (simp add: set_scanRow)
qed

lemma distinct_scanRows: "distinct (scanRows y rs)"
proof (induction rs arbitrary: y)
  case Nil
  then show ?case by simp
next
  case (Cons r rs)
  have "set (scanRow y 0 r) \<inter> set (scanRows (Suc y) rs) = {}"
    by (auto simp: set_scanRow set_scanRows)
  with Cons.IH [of "Suc y"] show ?case by (simp add: distinct_scanRow)
qed

lemma set_pixelIndex:
  "set (pixelIndex m) = {(y, x) | y x. y < length m \<and> x < length (m ! y) \<and> \<not> m ! y ! x}"
  by (simp add: pixelIndex_def set_scanRows)

lemma distinct_pixelIndex: "distinct (pixelIndex m)"
  by (simp add: pixelIndex_def distinct_scanRows)

lemma sorted_scanRow: "sorted_wrt rowMajor (scanRow y x ms)"
  by (induction ms arbitrary: x) (auto simp: set_scanRow rowMajor_def)

lemma sorted_scanRows: "sorted_wrt rowMajor (scanRows y rs)"
proof (induction rs arbitrary: y)
  case Nil
  then show ?case by simp
next
  case (Cons r rs)
  have "\<forall>p \<in> set (scanRow y 0 r). \<forall>q \<in> set (scanRows (Suc y) rs). rowMajor p q"
    by (auto simp: set_scanRow set_scanRows rowMajor_def)
  with Cons.IH [of "Suc y"] show ?case
    by (simp add: sorted_wrt_append sorted_scanRow)
qed

lemma sorted_pixelIndex: "sorted_wrt rowMajor (pixelIndex m)"
  by (simp add: pixelIndex_def sorted_scanRows)

subsection \<open>Writing pixels\<close>

lemma shape_writePixel: "shape (writePixel img p v) = shape img"
  by (cases p) (auto simp: writePixel_def shape_def map_update list_update_same_conv)

lemma length_writePixel: "length (writePixel img p v) = length img"
  by (cases p) (simp add: writePixel_def)

lemma length_nth_writePixel: "length (writePixel img p v ! y) = length (img ! y)"
  by (cases p) (auto simp: writePixel_def nth_list_update)

lemma nth_writePixel:
  "y < length img \<Longrightarrow> x < length (img ! y) \<Longrightarrow>
     writePixel img p v ! y ! x = (if p = (y, x) then Val v else img ! y ! x)"
  by (cases p) (auto simp: writePixel_def nth_list_update)

text \<open>The scatter of the first \<open>n\<close> rows of a synthetic table.\<close>

lemma scatter_shape:
  "shape (fold (\<lambda>r img. writePixel img (idx ! r) (g r)) rs img0) = shape img0"
  by (induction rs arbitrary: img0) (simp_all add: shape_writePixel)

lemma shape_eq_lengths:
  assumes "shape a = shape b"
  shows "length a = length b" and "y < length b \<Longrightarrow> length (a ! y) = length (b ! y)"
proof -
  from assms have m: "map length a = map length b" by (simp add: shape_def)
  then show l: "length a = length b" by (rule map_eq_imp_length_eq)
  assume y: "y < length b"
  with l have "map length a ! y = length (a ! y)" "map length b ! y = length (b ! y)"
    by simp_all
  with m show "length (a ! y) = length (b ! y)" by simp
qed

lemma scatter_step:
  assumes "y < length img0" "x < length (img0 ! y)"
  shows "fold (\<lambda>r img. writePixel img (idx ! r) (g r)) [0..<Suc n] img0 ! y ! x
      = (if idx ! n = (y, x) then Val (g n)
         else fold (\<lambda>r img. writePixel img (idx ! r) (g r)) [0..<n] img0 ! y ! x)"
proof -
  let ?img = "fold (\<lambda>r img. writePixel img (idx ! r) (g r)) [0..<n] img0"
  have "shape ?img = shape img0" by (rule scatter_shape)
  then have "length ?img = length img0" "length (?img ! y) = length (img0 ! y)"
    using shape_eq_lengths assms(1) by blast+
  with assms have "y < length ?img" "x < length (?img ! y)" by simp_all
  then have "writePixel ?img (idx ! n) (g n) ! y ! x
      = (if idx ! n = (y, x) then Val (g n) else ?img ! y ! x)"
    by (rule nth_writePixel)
  then show ?thesis by simp
qed

lemma scatter_miss:
  assumes "y < length img0" "x < length (img0 ! y)"
  shows "n \<le> length idx \<Longrightarrow> (y, x) \<notin> set (take n idx) \<Longrightarrow>
     fold (\<lambda>r img. writePixel img (idx ! r) (g r)) [0..<n] img0 ! y ! x = img0 ! y ! x"
proof (induction n)
  case 0
  then show ?case by simp
next
  case (Suc n)
  then have n: "n < length idx" by simp
  with Suc.prems(2) have "idx ! n \<noteq> (y, x)" "(y, x) \<notin> set (take n idx)"
    by (auto simp: take_Suc_conv_app_nth)
  with Suc.IH n show ?case
    by (simp only: scatter_step [OF assms]) simp
qed

lemma scatter_hit:
  assumes "y < length img0" "x < length (img0 ! y)" "distinct idx"
  shows "n \<le> length idx \<Longrightarrow> r < n \<Longrightarrow> idx ! r = (y, x) \<Longrightarrow>
     fold (\<lambda>r img. writePixel img (idx ! r) (g r)) [0..<n] img0 ! y ! x = Val (g r)"
proof (induction n)
  case 0
  then show ?case by simp
next
  case (Suc n)
  then have n: "n < length idx" by simp
  show ?case
  proof (cases "r = n")
    case True
    with Suc.prems(3) show ?thesis
      by (simp only: scatter_step [OF assms(1,2)]) simp
  next
    case False
    with Suc.prems(2) have r: "r < n" by simp
    with n assms(3) Suc.prems(3) have "idx ! n \<noteq> (y, x)"
      by (metis less_trans nat_neq_iff nth_eq_iff_index_eq)
    with Suc.IH r n Suc.prems(3) show ?thesis
      by (simp only: scatter_step [OF assms(1,2)]) simp
  qed
qed

lemma shape_blank: "shape (blank m) = shape m"
  by (simp add: blank_def shape_def)

lemma nth_blank: "y < length m \<Longrightarrow> x < length (m ! y) \<Longrightarrow> blank m ! y ! x = NoData"
  by (simp add: blank_def)

lemma pixelIndex_in_bounds:
  "p \<in> set (pixelIndex m) \<Longrightarrow> fst p < length m \<and> snd p < length (m ! fst p) \<and> \<not> m ! fst p ! snd p"
  by (auto simp: set_pixelIndex)

lemma link_synthetic:
  "length (inverseMap fl) = N \<Longrightarrow>
     link (syntheticTable N cols cell) fl =
       Inr \<lparr>table = syntheticTable N cols cell, flist = fl,
            byId = map_of (rows (syntheticTable N cols cell))\<rparr>"
  by (simp add: link_def syntheticTable_def comp_def)

lemma toImage_synthetic:
  assumes "length (inverseMap fl) = N" "c \<in> set cols"
  shows "reconstruct (syntheticTable N cols cell) fl c =
           Inr (fold (\<lambda>r img. writePixel img (inverseMap fl ! r) (cell r c)) [0..<N]
                  (blank (mask_arr fl)))"
proof -
  have "fold ((\<lambda>row img. case coordOf fl (fst row) of None \<Rightarrow> img
                 | Some p \<Rightarrow> writePixel img p (snd row c)) \<circ> (\<lambda>r. (int r, cell r))) [0..<N] img0
      = fold (\<lambda>r img. writePixel img (inverseMap fl ! r) (cell r c)) [0..<N] img0" for img0
    using assms(1) by (intro fold_cong) (auto simp: coordOf_def)
  then show ?thesis
    unfolding reconstruct_def link_synthetic [OF assms(1)]
    using assms(2) by (simp add: toImage_def syntheticTable_def fold_map)
qed

lemma reconstruct_synthetic:
  assumes new: "FilterList_new fs m cd z = Inr fl" and c: "c \<in> set cols"
  shows "\<exists>img. reconstruct (syntheticTable (length (pixelIndex m)) cols cell) fl c = Inr img
     \<and> shape img = shape m
     \<and> (\<forall>r < length (pixelIndex m).
           img ! fst (pixelIndex m ! r) ! snd (pixelIndex m ! r) = Val (cell r c))
     \<and> (\<forall>y < length m. \<forall>x < length (m ! y). m ! y ! x \<longrightarrow> img ! y ! x = NoData)"
proof -
  let ?idx = "pixelIndex m"
  let ?N = "length ?idx"
  let ?img = "fold (\<lambda>r img. writePixel img (?idx ! r) (cell r c)) [0..<?N] (blank m)"
  from new have fl: "inverseMap fl = ?idx" "mask_arr fl = m"
    by (auto simp: FilterList_new_def split: if_splits)
  then have rec: "reconstruct (syntheticTable ?N cols cell) fl c = Inr ?img"
    using toImage_synthetic [of fl ?N c cols cell] c by simp
  have sh: "shape ?img = shape m"
    by (simp add: scatter_shape shape_blank)
  have hit: "?img ! fst (?idx ! r) ! snd (?idx ! r) = Val (cell r c)" if "r < ?N" for r
  proof -
    from that have "?idx ! r \<in> set ?idx" by simp
    then have b: "fst (?idx ! r) < length m" "snd (?idx ! r) < length (m ! fst (?idx ! r))"
      using pixelIndex_in_bounds by blast+
    then have b': "fst (?idx ! r) < length (blank m)"
      "snd (?idx ! r) < length (blank m ! fst (?idx ! r))"
      by (simp_all add: blank_def)
    show ?thesis
      by (rule scatter_hit [OF b' distinct_pixelIndex _ that]) simp_all
  qed
  have miss: "?img ! y ! x = NoData" if "y < length m" "x < length (m ! y)" "m ! y ! x" for y x
  proof -
    from that have b': "y < length (blank m)" "x < length (blank m ! y)"
      by (simp_all add: blank_def)
    from that(3) have "(y, x) \<notin> set (take ?N ?idx)"
      by (simp add: set_pixelIndex)
    then have "?img ! y ! x = blank m ! y ! x"
      by (intro scatter_miss [OF b']) simp_all
    with that show ?thesis by (simp add: nth_blank)
  qed
  from rec sh hit miss show ?thesis by blast
qed

subsection \<open>Reading the image back\<close>

lemma readRow_scanRow:
  "length ps = length ms \<Longrightarrow>
   \<forall>i < length ms. ps ! i = (if ms ! i then NoData else Val (val (y, x + i))) \<Longrightarrow>
   readRow y x ps = map (\<lambda>p. (p, val p)) (scanRow y x ms)"
proof (induction ms arbitrary: ps x)
  case Nil
  then show ?case by simp
next
  case (Cons m ms)
  then obtain q qs where ps: "ps = q # qs" by (cases ps) auto
  from Cons.prems(2) have q: "q = (if m then NoData else Val (val (y, x)))"
    unfolding ps by (metis add_0_right length_greater_0_conv list.discI nth_Cons_0)
  have "\<forall>i < length ms. qs ! i = (if ms ! i then NoData else Val (val (y, Suc x + i)))"
  proof (intro allI impI)
    fix i assume "i < length ms"
    then have "Suc i < length (m # ms)" by simp
    with Cons.prems(2) have "ps ! Suc i = (if (m # ms) ! Suc i then NoData else Val (val (y, x + Suc i)))"
      by blast
    then show "qs ! i = (if ms ! i then NoData else Val (val (y, Suc x + i)))"
      by (simp add: ps)
  qed
  moreover from Cons.prems(1) have "length qs = length ms" by (simp add: ps)
  ultimately have "readRow y (Suc x) qs = map (\<lambda>p. (p, val p)) (scanRow y (Suc x) ms)"
    by (rule Cons.IH [rotated])
  then show ?case by (simp add: ps q)
qed

lemma readRows_scanRows:
  "length img = length m \<Longrightarrow>
   \<forall>j < length m. length (img ! j) = length (m ! j) \<and>
      (\<forall>i < length (m ! j). img ! j ! i = (if m ! j ! i then NoData else Val (val (y + j, i)))) \<Longrightarrow>
   readRows y img = map (\<lambda>p. (p, val p)) (scanRows y m)"
proof (induction m arbitrary: img y)
  case Nil
  then show ?case by simp
next
  case (Cons r rs)
  then obtain q qs where img: "img = q # qs" by (cases img) auto
  have "0 < length (r # rs)" by simp
  with Cons.prems(2) have "length (img ! 0) = length ((r # rs) ! 0) \<and>
      (\<forall>i < length ((r # rs) ! 0). img ! 0 ! i =
         (if (r # rs) ! 0 ! i then NoData else Val (val (y + 0, i))))" by blast
  then have "length q = length r"
    "\<forall>i < length r. q ! i = (if r ! i then NoData else Val (val (y, 0 + i)))"
    by (simp_all add: img)
  then have row: "readRow y 0 q = map (\<lambda>p. (p, val p)) (scanRow y 0 r)"
    by (rule readRow_scanRow)
  have "\<forall>j < length rs. length (qs ! j) = length (rs ! j) \<and>
      (\<forall>i < length (rs ! j). qs ! j ! i = (if rs ! j ! i then NoData else Val (val (Suc y + j, i))))"
  proof (intro allI impI)
    fix j assume "j < length rs"
    then have "Suc j < length (r # rs)" by simp
    with Cons.prems(2) have "length (img ! Suc j) = length ((r # rs) ! Suc j) \<and>
      (\<forall>i < length ((r # rs) ! Suc j). img ! Suc j ! i =
         (if (r # rs) ! Suc j ! i then NoData else Val (val (y + Suc j, i))))" by blast
    then show "length (qs ! j) = length (rs ! j) \<and>
      (\<forall>i < length (rs ! j). qs ! j ! i = (if rs ! j ! i then NoData else Val (val (Suc y + j, i))))"
      by (simp add: img)
  qed
  moreover from Cons.prems(1) have "length qs = length rs" by (simp add: img)
  ultimately have "readRows (Suc y) qs = map (\<lambda>p. (p, val p)) (scanRows (Suc y) rs)"
    by (rule Cons.IH [rotated])
  with row show ?case by (simp add: img)
qed

lemma FilterList_new_Inr:
  "FilterList_new fs m cd z = Inr fl \<Longrightarrow>
     fl = \<lparr>filterSeq = fs, mask_arr = m, code = cd, redshift = z, inverseMap = pixelIndex m,
           forwardMap = zip (pixelIndex m) [0..<length (pixelIndex m)]\<rparr>"
  by (auto simp: FilterList_new_def split: if_splits)

lemma index_zip:
  assumes "distinct idx"
  shows "map (\<lambda>p. (p, the (map_of (zip idx [0..<length idx]) p))) idx = zip idx [0..<length idx]"
proof (rule nth_equalityI)
  show "length (map (\<lambda>p. (p, the (map_of (zip idx [0..<length idx]) p))) idx)
      = length (zip idx [0..<length idx])" by simp
next
  fix r assume "r < length (map (\<lambda>p. (p, the (map_of (zip idx [0..<length idx]) p))) idx)"
  then have r: "r < length idx" by simp
  then have "map_of (zip idx [0..<length idx]) (idx ! r) = Some ([0..<length idx] ! r)"
    using assms by (intro map_of_zip_nth) simp_all
  with r show "map (\<lambda>p. (p, the (map_of (zip idx [0..<length idx]) p))) idx ! r
      = zip idx [0..<length idx] ! r" by simp
qed

lemma roundtrip_constructed:
  assumes new: "FilterList_new fs m cd z = Inr fl"
  shows "\<exists>img. reconstruct (rowIdTable fl c) fl c = Inr img
     \<and> shape img = shape m
     \<and> inverseMap fl = pixelIndex m
     \<and> sorted_wrt rowMajor (pixelIndex m)
     \<and> set (pixelIndex m) = {(y, x) | y x. y < length m \<and> x < length (m ! y) \<and> \<not> m ! y ! x}
     \<and> (\<forall>r < length (inverseMap fl).
           img ! fst (inverseMap fl ! r) ! snd (inverseMap fl ! r) = Val r)
     \<and> (\<forall>y < length m. \<forall>x < length (m ! y). m ! y ! x \<longrightarrow> img ! y ! x = NoData)
     \<and> imageIndex img = forwardMap fl
     \<and> map fst (imageIndex img) = pixelIndex m
     \<and> map snd (imageIndex img) = [0..<length (pixelIndex m)]"
proof -
  let ?idx = "pixelIndex m"
  let ?N = "length ?idx"
  let ?val = "\<lambda>p. the (map_of (zip ?idx [0..<?N]) p)"
  from FilterList_new_Inr [OF new]
  have fl: "inverseMap fl = ?idx" "forwardMap fl = zip ?idx [0..<?N]" by simp_all
  have tbl: "rowIdTable fl c = syntheticTable ?N [c] (\<lambda>r _. r)"
    by (simp add: rowIdTable_def fl)
  have "c \<in> set [c]" by simp
  from reconstruct_synthetic [OF new this, of "\<lambda>r _. r"]
  obtain img where img: "reconstruct (rowIdTable fl c) fl c = Inr img"
    and sh: "shape img = shape m"
    and hit: "\<forall>r < ?N. img ! fst (?idx ! r) ! snd (?idx ! r) = Val r"
    and miss: "\<forall>y < length m. \<forall>x < length (m ! y). m ! y ! x \<longrightarrow> img ! y ! x = NoData"
    unfolding tbl by blast
  have pt: "img ! y ! x = (if m ! y ! x then NoData else Val (?val (y, x)))"
    if "y < length m" "x < length (m ! y)" for y x
  proof (cases "m ! y ! x")
    case True
    with miss that show ?thesis by simp
  next
    case False
    with that have "(y, x) \<in> set ?idx" by (simp add: set_pixelIndex)
    then obtain r where r: "r < ?N" "?idx ! r = (y, x)" by (auto simp: in_set_conv_nth)
    then have "map_of (zip ?idx [0..<?N]) (?idx ! r) = Some ([0..<?N] ! r)"
      using distinct_pixelIndex by (intro map_of_zip_nth) simp_all
    with r have "?val (y, x) = r" by simp
    moreover from hit r have "img ! y ! x = Val r" by fastforce
    ultimately show ?thesis using False by simp
  qed
  have len: "length img = length m" "\<And>y. y < length m \<Longrightarrow> length (img ! y) = length (m ! y)"
    using shape_eq_lengths [OF sh] by blast+
  have "readRows 0 img = map (\<lambda>p. (p, ?val p)) (scanRows 0 m)"
    by (rule readRows_scanRows) (use len pt in simp_all)
  then have rd: "imageIndex img = zip ?idx [0..<?N]"
    using index_zip [OF distinct_pixelIndex, of m]
    by (simp add: imageIndex_def pixelIndex_def)
  from img sh fl hit miss rd sorted_pixelIndex [of m] set_pixelIndex [of m]
  show ?thesis by auto
qed


text \<open>
  Claim C1: for every mask and every stack of Filters of matching shape, constructing
  the FilterList and reconstructing the column of a synthetic output table that
  carries each row's own row id succeeds and reproduces the row-major enumeration of
  the non-masked pixels: the pixel index is that enumeration (in row-major order,
  exactly the non-masked coordinates), the image has the grid's shape, it holds \<open>r\<close>
  at the coordinate the index assigned to row id \<open>r\<close> and the no-data sentinel at
  every masked pixel, and read back in row-major order it is the forward mapping:
  the non-masked coordinates in order, with the row ids \<open>0..N-1\<close>.
\<close>

theorem pixel_index_roundtrip:
  assumes "fs \<noteq> []"
    and "\<forall>f \<in> set fs. shape (flux f) = shape m \<and> shape (var f) = shape m"
  shows "\<exists>fl img. FilterList_new fs m cd z = Inr fl
     \<and> reconstruct (rowIdTable fl c) fl c = Inr img
     \<and> shape img = shape m
     \<and> inverseMap fl = pixelIndex m
     \<and> sorted_wrt rowMajor (pixelIndex m)
     \<and> set (pixelIndex m) = {(y, x) | y x. y < length m \<and> x < length (m ! y) \<and> \<not> m ! y ! x}
     \<and> (\<forall>r < length (inverseMap fl).
           img ! fst (inverseMap fl ! r) ! snd (inverseMap fl ! r) = Val r)
     \<and> (\<forall>y < length m. \<forall>x < length (m ! y). m ! y ! x \<longrightarrow> img ! y ! x = NoData)
     \<and> imageIndex img = forwardMap fl
     \<and> map fst (imageIndex img) = pixelIndex m
     \<and> map snd (imageIndex img) = [0..<length (pixelIndex m)]"
proof -
  from assms obtain fl where new: "FilterList_new fs m cd z = Inr fl"
    by (auto simp: FilterList_new_def)
  from new roundtrip_constructed [OF new, of c] show ?thesis
    by (elim exE) (rule exI, rule exI, rule conjI, assumption, assumption)
qed

theorem pixel_index_roundtrip_witness:
  "FilterList_new
     [\<lparr>band = ''435'', flux = [[1, 2], [3, 4]], flux2 = None, var = [[1, 1], [1, 1]],
       zeropoint = 25.68\<rparr>]
     [[False, True], [False, False]] LEPHARE 0.622
   = Inr \<lparr>filterSeq = [\<lparr>band = ''435'', flux = [[1, 2], [3, 4]], flux2 = None,
                      var = [[1, 1], [1, 1]], zeropoint = 25.68\<rparr>],
          mask_arr = [[False, True], [False, False]], code = LEPHARE, redshift = 0.622,
          inverseMap = [(0, 0), (1, 0), (1, 1)],
          forwardMap = [((0, 0), 0), ((1, 0), 1), ((1, 1), 2)]\<rparr>
   \<and> (\<exists>img. reconstruct
         (rowIdTable \<lparr>filterSeq = [\<lparr>band = ''435'', flux = [[1, 2], [3, 4]], flux2 = None,
                      var = [[1, 1], [1, 1]], zeropoint = 25.68\<rparr>],
          mask_arr = [[False, True], [False, False]], code = LEPHARE, redshift = 0.622,
          inverseMap = [(0, 0), (1, 0), (1, 1)],
          forwardMap = [((0, 0), 0), ((1, 0), 1), ((1, 1), 2)]\<rparr> ''row_id'')
         \<lparr>filterSeq = [\<lparr>band = ''435'', flux = [[1, 2], [3, 4]], flux2 = None,
                      var = [[1, 1], [1, 1]], zeropoint = 25.68\<rparr>],
          mask_arr = [[False, True], [False, False]], code = LEPHARE, redshift = 0.622,
          inverseMap = [(0, 0), (1, 0), (1, 1)],
          forwardMap = [((0, 0), 0), ((1, 0), 1), ((1, 1), 2)]\<rparr> ''row_id'' = Inr img
       \<and> img ! 0 ! 0 = Val 0 \<and> img ! 0 ! 1 = NoData \<and> img ! 1 ! 0 = Val 1 \<and> img ! 1 ! 1 = Val 2
       \<and> imageIndex img = [((0, 0), 0), ((1, 0), 1), ((1, 1), 2)])"
  (is "?new = Inr ?fl \<and> ?rest")
proof -
  have new: "?new = Inr ?fl"
    by (simp add: FilterList_new_def shape_def pixelIndex_def upt_rec)
  have ne: "[\<lparr>band = ''435'', flux = [[1, 2], [3, 4]], flux2 = None, var = [[1, 1], [1, 1]],
       zeropoint = 25.68\<rparr>] \<noteq> []" by simp
  have sh: "\<forall>f \<in> set [\<lparr>band = ''435'', flux = [[1, 2], [3, 4]], flux2 = None,
       var = [[1, 1], [1, 1]], zeropoint = 25.68\<rparr>].
     shape (flux f) = shape [[False, True], [False, False]]
     \<and> shape (var f) = shape [[False, True], [False, False]]"
    by (simp add: shape_def)
  from pixel_index_roundtrip [OF ne sh, of LEPHARE "0.622" "''row_id''"]
  obtain fl img where new': "?new = Inr fl"
    and img: "reconstruct (rowIdTable fl ''row_id'') fl ''row_id'' = Inr img"
    and hit: "\<forall>r < length (inverseMap fl).
           img ! fst (inverseMap fl ! r) ! snd (inverseMap fl ! r) = Val r"
    and miss: "\<forall>y < length [[False, True], [False, False]].
           \<forall>x < length ([[False, True], [False, False]] ! y).
             [[False, True], [False, False]] ! y ! x \<longrightarrow> img ! y ! x = NoData"
    and rd: "imageIndex img = forwardMap fl"
    by (elim exE conjE)
  from new new' have fl: "fl = ?fl" by (simp only: sum.inject)
  have h: "img ! 0 ! 0 = Val 0" "img ! 1 ! 0 = Val 1" "img ! 1 ! 1 = Val 2"
    using hit [rule_format, of 0] hit [rule_format, of 1] hit [rule_format, of 2]
    by (simp_all add: fl)
  have m: "img ! 0 ! 1 = NoData"
    using miss [rule_format, of 0 1] by simp
  from rd have r: "imageIndex img = [((0, 0), 0), ((1, 0), 1), ((1, 1), 2)]"
    by (simp add: fl)
  from img have img': "reconstruct (rowIdTable ?fl ''row_id'') ?fl ''row_id'' = Inr img"
    by (simp only: fl)
  from img' h m r have ?rest
    by (intro exI [of _ img] conjI)
  with new show ?thesis by (rule conjI)
qed

subsection \<open>The 3 by 3 scenario\<close>

lemma pixelIndex_centerMask:
  "pixelIndex centerMask = [(0, 0), (0, 1), (0, 2), (1, 0), (1, 2), (2, 0), (2, 1), (2, 2)]"
  by (simp add: pixelIndex_def centerMask_def)

lemma upt_8: "[0..<8] = [0, 1, 2, 3, 4, 5, 6, 7]"
  by (simp add: upt_rec)

lemma center_masked_constructed:
  assumes new: "FilterList_new fs centerMask cd z = Inr fl" and c: "c \<in> set cols"
  shows "length (inverseMap fl) = 8
     \<and> inverseMap fl = [(0, 0), (0, 1), (0, 2), (1, 0), (1, 2), (2, 0), (2, 1), (2, 2)]
     \<and> forwardMap fl = [((0, 0), 0), ((0, 1), 1), ((0, 2), 2), ((1, 0), 3), ((1, 2), 4),
                         ((2, 0), 5), ((2, 1), 6), ((2, 2), 7)]
     \<and> reconstruct (syntheticTable 8 cols cell) fl c =
         Inr [[Val (cell 0 c), Val (cell 1 c), Val (cell 2 c)],
              [Val (cell 3 c), NoData, Val (cell 4 c)],
              [Val (cell 5 c), Val (cell 6 c), Val (cell 7 c)]]"
proof -
  from FilterList_new_Inr [OF new]
  have inv: "inverseMap fl = [(0, 0), (0, 1), (0, 2), (1, 0), (1, 2), (2, 0), (2, 1), (2, 2)]"
    and fwd: "forwardMap fl = zip (pixelIndex centerMask) [0..<length (pixelIndex centerMask)]"
    and msk: "mask_arr fl = centerMask"
    by (simp_all add: pixelIndex_centerMask)
  from inv have len: "length (inverseMap fl) = 8" by simp
  from fwd have fwd': "forwardMap fl = [((0, 0), 0), ((0, 1), 1), ((0, 2), 2), ((1, 0), 3),
      ((1, 2), 4), ((2, 0), 5), ((2, 1), 6), ((2, 2), 7)]"
    by (simp add: pixelIndex_centerMask upt_8)
  have "reconstruct (syntheticTable 8 cols cell) fl c =
      Inr (fold (\<lambda>r img. writePixel img (inverseMap fl ! r) (cell r c)) [0..<8]
             (blank (mask_arr fl)))"
    using len c by (rule toImage_synthetic)
  also have "fold (\<lambda>r img. writePixel img (inverseMap fl ! r) (cell r c)) [0..<8]
             (blank (mask_arr fl)) =
         [[Val (cell 0 c), Val (cell 1 c), Val (cell 2 c)],
          [Val (cell 3 c), NoData, Val (cell 4 c)],
          [Val (cell 5 c), Val (cell 6 c), Val (cell 7 c)]]"
    by (simp add: upt_8 inv msk centerMask_def blank_def writePixel_def)
  finally show ?thesis using len inv fwd' by simp
qed


text \<open>
  Claim C7: for a 3 by 3 grid whose mask is false everywhere except at the centre
  pixel, the pixel index built at construction has exactly 8 entries, with row ids
  0 to 7 assigned in row-major order skipping the centre; reconstructing any column
  of a full synthetic output table puts the no-data sentinel exactly at the centre
  pixel and the value of the matching row at every other pixel.
\<close>

theorem center_masked_3x3:
  assumes "fs \<noteq> []"
    and "\<forall>f \<in> set fs. shape (flux f) = [3, 3, 3] \<and> shape (var f) = [3, 3, 3]"
    and "c \<in> set cols"
  shows "\<exists>fl. FilterList_new fs centerMask cd z = Inr fl
     \<and> length (inverseMap fl) = 8
     \<and> inverseMap fl = [(0, 0), (0, 1), (0, 2), (1, 0), (1, 2), (2, 0), (2, 1), (2, 2)]
     \<and> forwardMap fl = [((0, 0), 0), ((0, 1), 1), ((0, 2), 2), ((1, 0), 3), ((1, 2), 4),
                         ((2, 0), 5), ((2, 1), 6), ((2, 2), 7)]
     \<and> reconstruct (syntheticTable 8 cols cell) fl c =
         Inr [[Val (cell 0 c), Val (cell 1 c), Val (cell 2 c)],
              [Val (cell 3 c), NoData, Val (cell 4 c)],
              [Val (cell 5 c), Val (cell 6 c), Val (cell 7 c)]]"
proof -
  have "shape centerMask = [3, 3, 3]" by (simp add: shape_def centerMask_def)
  with assms(1,2) obtain fl where new: "FilterList_new fs centerMask cd z = Inr fl"
    by (auto simp: FilterList_new_def)
  from new center_masked_constructed [OF new assms(3), of cell] show ?thesis
    by (rule_tac x = fl in exI) (rule conjI, assumption, assumption)
qed

theorem center_masked_3x3_witness:
  "\<exists>fl. FilterList_new
          [\<lparr>band = ''435'', flux = [[1, 2, 3], [4, 5, 6], [7, 8, 9]], flux2 = None,
            var = [[1, 1, 1], [1, 1, 1], [1, 1, 1]], zeropoint = 25.68\<rparr>]
          centerMask LEPHARE 0.622 = Inr fl
     \<and> inverseMap fl = [(0, 0), (0, 1), (0, 2), (1, 0), (1, 2), (2, 0), (2, 1), (2, 2)]
     \<and> reconstruct (syntheticTable 8 [''mass_med'', ''sfr_med''] (\<lambda>r c. 10 * r)) fl ''mass_med''
         = Inr [[Val 0, Val 10, Val 20], [Val 30, NoData, Val 40], [Val 50, Val 60, Val 70]]"
proof -
  have c: "''mass_med'' \<in> set [''mass_med'', ''sfr_med'']" by simp
  have ne: "[\<lparr>band = ''435'', flux = [[1, 2, 3], [4, 5, 6], [7, 8, 9]], flux2 = None,
            var = [[1, 1, 1], [1, 1, 1], [1, 1, 1]], zeropoint = 25.68\<rparr>] \<noteq> []" by simp
  have sh: "\<forall>f \<in> set [\<lparr>band = ''435'', flux = [[1, 2, 3], [4, 5, 6], [7, 8, 9]], flux2 = None,
            var = [[1, 1, 1], [1, 1, 1], [1, 1, 1]], zeropoint = 25.68\<rparr>].
      shape (flux f) = [3, 3, 3] \<and> shape (var f) = [3, 3, 3]"
    by (simp add: shape_def)
  from center_masked_3x3 [OF ne sh c, of LEPHARE "0.622" "\<lambda>r c. 10 * r"]
  obtain fl where new: "FilterList_new
          [\<lparr>band = ''435'', flux = [[1, 2, 3], [4, 5, 6], [7, 8, 9]], flux2 = None,
            var = [[1, 1, 1], [1, 1, 1], [1, 1, 1]], zeropoint = 25.68\<rparr>]
          centerMask LEPHARE 0.622 = Inr fl"
    and inv: "inverseMap fl = [(0, 0), (0, 1), (0, 2), (1, 0), (1, 2), (2, 0), (2, 1), (2, 2)]"
    and rec: "reconstruct (syntheticTable 8 [''mass_med'', ''sfr_med''] (\<lambda>r c. 10 * r)) fl
        ''mass_med'' =
         Inr [[Val (10 * 0), Val (10 * 1), Val (10 * 2)],
              [Val (10 * 3), NoData, Val (10 * 4)],
              [Val (10 * 5), Val (10 * 6), Val (10 * 7)]]"
    by (elim exE conjE)
  have "[[Val (10 * 0), Val (10 * 1), Val (10 * 2)],
         [Val (10 * 3), NoData, Val (10 * 4)],
         [Val (10 * 5), Val (10 * 6), Val (10 * 7)]]
      = [[Val 0, Val 10, Val 20], [Val 30, NoData, Val 40], [Val 50, Val 60, Val (70::nat)]]"
    by simp
  with rec have rec': "reconstruct (syntheticTable 8 [''mass_med'', ''sfr_med''] (\<lambda>r c. 10 * r))
        fl ''mass_med''
      = Inr [[Val 0, Val 10, Val 20], [Val 30, NoData, Val 40], [Val 50, Val 60, Val 70]]"
    by (simp only:)
  from new inv rec' show ?thesis
    by (intro exI [of _ fl] conjI)
qed

end
